theory Spec2Isabelle
  imports Main "HOL-Library.Word" "HOL-Library.Signed_Division"
begin

section \<open>The DNS delay responder: data model\<close>

text \<open>
  The program is one Go file, \<^verbatim>\<open>main.go\<close>.  Its core is the closure returned by
  \<^verbatim>\<open>newDNSHandler\<close>, which is run once for every inbound DNS message.  The closure
  reads the configuration (\<^verbatim>\<open>records\<close>, the two delays, \<^verbatim>\<open>authority\<close>,
  \<^verbatim>\<open>alternateRecords\<close>), mutates the package-level map \<^verbatim>\<open>choiceMap\<close>, sleeps, logs
  and finally writes one reply through the response writer.

  The embedding below passes the mutable world explicitly.  A run-time panic of Go (an
  index out of range) is a value of the type \<open>panic\<close>, so that a handler that aborts
  is visibly different from one that replies.
\<close>

subsection \<open>Messages of the DNS library, as far as the handler touches them\<close>

text \<open>\<^verbatim>\<open>dns.Question\<close>: a name and two 16-bit codes.\<close>

record Question =
  Name :: string
  Qtype :: "16 word"
  Qclass :: "16 word"

text \<open>
  \<^verbatim>\<open>dns.Msg\<close>: the header fields the handler or \<^verbatim>\<open>SetReply\<close> reads or writes, the
  \<^verbatim>\<open>Compress\<close> flag and the four sections (the field \<^verbatim>\<open>Question\<close> is \<open>Questions\<close>
  here, next to the record of that name, and \<^verbatim>\<open>Id\<close> is \<open>MsgId\<close>).  \<^verbatim>\<open>dns.RR\<close> is an
  interface type, so a value of it may be \<^verbatim>\<open>nil\<close>: it is a value of \<open>'rr option\<close>,
  \<open>None\<close> for \<^verbatim>\<open>nil\<close> and \<open>Some rr\<close> for a record.  The handler never looks inside a
  record \<open>rr\<close>, so the type of records is the parameter \<open>'rr\<close>.
\<close>

record 'rr Msg =
  MsgId :: "16 word"
  Response :: bool
  Opcode :: int
  Authoritative :: bool
  RecursionDesired :: bool
  CheckingDisabled :: bool
  Rcode :: int
  Compress :: bool
  Questions :: "Question list"
  Answer :: "'rr option list"
  Ns :: "'rr option list"
  Extra :: "'rr option list"

text \<open>The constants of the library that the handler compares against.\<close>

definition OpcodeQuery :: int where
  "OpcodeQuery = 0"

definition RcodeSuccess :: int where
  "RcodeSuccess = 0"

definition TypeA :: "16 word" where
  "TypeA = 1"

definition TypeAAAA :: "16 word" where
  "TypeAAAA = 28"

text \<open>\<^verbatim>\<open>new(dns.Msg)\<close>: every field has Go's zero value.\<close>

definition new_Msg :: "'rr Msg" where
  "new_Msg = \<lparr> MsgId = 0, Response = False, Opcode = 0, Authoritative = False,
               RecursionDesired = False, CheckingDisabled = False, Rcode = 0,
               Compress = False, Questions = [], Answer = [], Ns = [], Extra = [] \<rparr>"

text \<open>
  The method \<^verbatim>\<open>SetReply\<close> of \<^verbatim>\<open>dns.Msg\<close> in the library \<^verbatim>\<open>github.com/miekg/dns\<close>: it copies the
  identifier and the opcode, sets the response bit, copies the two flag bits of a
  standard query, clears the response code and keeps the first question of the request,
  when there is one.  It touches none of the answer, authority and additional sections.
\<close>

definition SetReply :: "'rr Msg \<Rightarrow> 'rr Msg \<Rightarrow> 'rr Msg" where
  "SetReply m request =
     (let m1 = m\<lparr> MsgId := MsgId request, Response := True, Opcode := Opcode request \<rparr>;
          m2 = (if Opcode m1 = OpcodeQuery
                then m1\<lparr> RecursionDesired := RecursionDesired request,
                         CheckingDisabled := CheckingDisabled request \<rparr>
                else m1);
          m3 = m2\<lparr> Rcode := RcodeSuccess \<rparr>
      in if length (Questions request) > 0
         then m3\<lparr> Questions := [Questions request ! 0] \<rparr>
         else m3)"

subsection \<open>Configuration\<close>

text \<open>The struct \<^verbatim>\<open>Records\<close>: four ordered lists of address strings.\<close>

record Records =
  A :: "string list"
  AAAA :: "string list"
  CNAMEA :: "string list"
  CNAMEAAAA :: "string list"

subsection \<open>The world the handler acts on\<close>

text \<open>
  One constructor for each \<^verbatim>\<open>log.Printf\<close> of the handler, holding the arguments of the
  format string in their order.  The last one holds the answer whose \<^verbatim>\<open>String()\<close> is
  logged at line 106; that call panics on \<^verbatim>\<open>nil\<close>, so the line is only ever logged for
  a record.
\<close>

datatype 'rr LogLine =
    GotNonQuery "'rr Msg"
  | QueryCNAME string string
  | QueryFor string string int
  | FailedRR string
  | Responding "'rr option"

text \<open>
  \<open>choiceMap\<close> is the package-level \<^verbatim>\<open>map[string]int\<close>; \<open>sent\<close> are the messages
  handed to \<^verbatim>\<open>w.WriteMsg\<close> (the handler ignores what that call returns), \<open>slept\<close> the
  arguments of \<^verbatim>\<open>time.Sleep\<close> (a \<^verbatim>\<open>time.Duration\<close> counts nanoseconds), \<open>logged\<close> the
  log lines, each in the order of the calls.
\<close>

record 'rr World =
  choiceMap :: "string \<rightharpoonup> int"
  sent :: "'rr Msg list"
  slept :: "int list"
  logged :: "'rr LogLine list"

text \<open>
  The two run-time panics the handler can end in: an index out of range (the index and
  the length), and a method call on a \<^verbatim>\<open>nil\<close> interface value.
\<close>

datatype panic = IndexOutOfRange int nat | NilDereference

subsection \<open>Go's primitives\<close>

text \<open>\<^verbatim>\<open>strings.HasPrefix\<close> and \<^verbatim>\<open>strings.TrimPrefix\<close>.\<close>

definition HasPrefix :: "string \<Rightarrow> string \<Rightarrow> bool" where
  "HasPrefix s p = (length s \<ge> length p \<and> take (length p) s = p)"

definition TrimPrefix :: "string \<Rightarrow> string \<Rightarrow> string" where
  "TrimPrefix s p = (if HasPrefix s p then drop (length p) s else s)"

text \<open>
  Go's \<^verbatim>\<open>int\<close> on a 64-bit platform: \<^verbatim>\<open>++\<close> wraps around in two's complement, and
  \<^verbatim>\<open>%\<close> truncates towards zero (it is \<open>smod\<close>, not \<open>mod\<close>).
\<close>

definition wrap_int64 :: "int \<Rightarrow> int" where
  "wrap_int64 x = (x + 2 ^ 63) mod 2 ^ 64 - 2 ^ 63"

text \<open>Reading a \<^verbatim>\<open>map[string]int\<close>: a missing key reads as 0.\<close>

definition map_read :: "(string \<rightharpoonup> int) \<Rightarrow> string \<Rightarrow> int" where
  "map_read cm k = (case cm k of None \<Rightarrow> 0 | Some v \<Rightarrow> v)"

text \<open>Indexing a slice with an \<^verbatim>\<open>int\<close>: out of range is a run-time panic.\<close>

definition index_slice :: "'a list \<Rightarrow> int \<Rightarrow> panic + 'a" where
  "index_slice xs i =
     (if 0 \<le> i \<and> i < int (length xs) then Inr (xs ! nat i)
      else Inl (IndexOutOfRange i (length xs)))"

section \<open>The handler\<close>

text \<open>
  Two functions of other libraries are parameters of the model, since their code is not
  part of the program:
  \<^item> \<open>ParseIP\<close> stands for \<^verbatim>\<open>net.ParseIP\<close>; \<open>None\<close> is its \<^verbatim>\<open>nil\<close>;
  \<^item> \<open>NewRR\<close> stands for \<^verbatim>\<open>dns.NewRR\<close>; \<open>Inl e\<close> is a non-nil error with the text
    \<open>e\<close>, \<open>Inr a\<close> the value returned with a nil error: \<open>Some rr\<close> for a record, and
    \<open>None\<close> for the \<^verbatim>\<open>nil\<close> that the library returns, without an error, for a text
    that holds no record (an empty text, or nothing but a comment).
\<close>

text \<open>
  Lines 38 to 46: the name with the prefix \<^verbatim>\<open>cname.\<close> sets the flag \<open>cname\<close>, is
  logged, and gets a CNAME record appended when the record can be built.
\<close>

definition cname_step ::
  "(string \<Rightarrow> string + 'rr option) \<Rightarrow> Question \<Rightarrow> 'rr Msg \<times> 'rr World \<Rightarrow> bool \<times> 'rr Msg \<times> 'rr World"
where
  "cname_step NewRR q mw =
     (case mw of (m, w) \<Rightarrow>
        if HasPrefix (Name q) ''cname.'' then
          let d = TrimPrefix (Name q) ''cname.'';
              w1 = w\<lparr> logged := logged w @ [QueryCNAME (Name q) d] \<rparr>
          in (case NewRR (Name q @ '' CNAME '' @ d) of
                Inr rr \<Rightarrow> (True, m\<lparr> Answer := Answer m @ [rr] \<rparr>, w1)
              | Inl e \<Rightarrow> (True, m, w1))
        else (False, m, w))"

text \<open>
  Lines 47 to 65: the \<^verbatim>\<open>switch\<close> on the query type chooses the answer set, the name of
  the type and the delay; any other type leaves the three at their initial values.
\<close>

definition select_answers ::
  "Records \<Rightarrow> int \<Rightarrow> int \<Rightarrow> bool \<Rightarrow> 16 word \<Rightarrow> string list \<times> string \<times> int"
where
  "select_answers records aDelay aaaaDelay cname qtype =
     (if qtype = TypeA then
        ((if cname \<and> length (CNAMEA records) > 0 then CNAMEA records else A records),
         ''A'', aDelay)
      else if qtype = TypeAAAA then
        ((if cname \<and> length (CNAMEAAAA records) > 0 then CNAMEAAAA records else AAAA records),
         ''AAAA'', aaaaDelay)
      else ([], [], 0))"

text \<open>
  Lines 74 to 85: the loop over the chosen addresses.  An address that \<open>ParseIP\<close>
  rejects is skipped; a record that cannot be built is logged and skipped; any other
  record is appended to the answer section.
\<close>

fun build_answers ::
  "(string \<Rightarrow> 'ip option) \<Rightarrow> (string \<Rightarrow> string + 'rr option) \<Rightarrow> string \<Rightarrow> string \<Rightarrow>
   string list \<Rightarrow> 'rr Msg \<times> 'rr World \<Rightarrow> 'rr Msg \<times> 'rr World"
where
  "build_answers ParseIP NewRR d queryType [] mw = mw"
| "build_answers ParseIP NewRR d queryType (ip # ips) mw =
     (case mw of (m, w) \<Rightarrow>
        if ParseIP ip = None then build_answers ParseIP NewRR d queryType ips (m, w)
        else (case NewRR (d @ '' '' @ queryType @ '' '' @ ip) of
                Inl e \<Rightarrow>
                  build_answers ParseIP NewRR d queryType ips
                    (m, w\<lparr> logged := logged w @ [FailedRR e] \<rparr>)
              | Inr rr \<Rightarrow>
                  build_answers ParseIP NewRR d queryType ips
                    (m\<lparr> Answer := Answer m @ [rr] \<rparr>, w)))"

text \<open>
  Lines 88 to 92: the counter of the name is created at 0 when missing, incremented, and
  the answer section is replaced by its element at the index \<^verbatim>\<open>counter % 2\<close>.
\<close>

definition alternate :: "string \<Rightarrow> 'rr Msg \<times> 'rr World \<Rightarrow> panic + 'rr Msg \<times> 'rr World" where
  "alternate name mw =
     (case mw of (m, w) \<Rightarrow>
        let cm1 = (if choiceMap w name = None then (choiceMap w)(name \<mapsto> 0) else choiceMap w);
            cm2 = cm1(name \<mapsto> wrap_int64 (map_read cm1 name + 1));
            w2 = w\<lparr> choiceMap := cm2 \<rparr>
        in (case index_slice (Answer m) (map_read cm2 name smod 2) of
              Inl e \<Rightarrow> Inl e
            | Inr rr \<Rightarrow> Inr (m\<lparr> Answer := [rr] \<rparr>, w2)))"

text \<open>Lines 33 to 94: the body of the loop, for one question.\<close>

definition question_step ::
  "(string \<Rightarrow> 'ip option) \<Rightarrow> (string \<Rightarrow> string + 'rr option) \<Rightarrow> Records \<Rightarrow> int \<Rightarrow> int \<Rightarrow> bool \<Rightarrow>
   Question \<Rightarrow> 'rr Msg \<times> 'rr World \<Rightarrow> panic + 'rr Msg \<times> 'rr World"
where
  "question_step ParseIP NewRR records aDelay aaaaDelay alternateRecords q mw =
     (case cname_step NewRR q mw of (cname, m1, w1) \<Rightarrow>
      case select_answers records aDelay aaaaDelay cname (Qtype q) of
        (answers, queryType, delay) \<Rightarrow>
          let w2 = w1\<lparr> logged := logged w1 @ [QueryFor queryType (Name q) delay] \<rparr>;
              w3 = w2\<lparr> slept := slept w2 @ [delay] \<rparr>
          in if length answers > 0 then
               let d = (if cname then TrimPrefix (Name q) ''cname.'' else Name q);
                   mw4 = build_answers ParseIP NewRR d queryType answers (m1, w3)
               in if alternateRecords then alternate (Name q) mw4 else Inr mw4
             else Inr (m1, w3))"

text \<open>Line 32: the loop over the questions of the reply; a panic ends it.\<close>

fun questions_loop ::
  "(string \<Rightarrow> 'ip option) \<Rightarrow> (string \<Rightarrow> string + 'rr option) \<Rightarrow> Records \<Rightarrow> int \<Rightarrow> int \<Rightarrow> bool \<Rightarrow>
   Question list \<Rightarrow> 'rr Msg \<times> 'rr World \<Rightarrow> panic + 'rr Msg \<times> 'rr World"
where
  "questions_loop ParseIP NewRR records aDelay aaaaDelay alternateRecords [] mw = Inr mw"
| "questions_loop ParseIP NewRR records aDelay aaaaDelay alternateRecords (q # qs) mw =
     (case question_step ParseIP NewRR records aDelay aaaaDelay alternateRecords q mw of
        Inl e \<Rightarrow> Inl e
      | Inr mw1 \<Rightarrow> questions_loop ParseIP NewRR records aDelay aaaaDelay alternateRecords qs mw1)"

text \<open>
  Lines 97 to 102: with an authority configured, the name of the first question is read
  (a panic when there is no question) and an NS record is appended when it can be built.
\<close>

definition authority_step ::
  "(string \<Rightarrow> string + 'rr option) \<Rightarrow> string \<Rightarrow> 'rr Msg \<Rightarrow> panic + 'rr Msg" where
  "authority_step NewRR authority m =
     (if length authority > 0 then
        (case index_slice (Questions m) 0 of
           Inl e \<Rightarrow> Inl e
         | Inr q0 \<Rightarrow>
             (case NewRR (Name q0 @ '' NS '' @ authority) of
                Inr rr \<Rightarrow> Inr (m\<lparr> Ns := Ns m @ [rr] \<rparr>)
              | Inl e \<Rightarrow> Inr m))
      else Inr m)"

text \<open>
  Lines 105 to 107: every answer is logged through its method \<^verbatim>\<open>String()\<close>; the call
  on a \<^verbatim>\<open>nil\<close> answer is a panic.
\<close>

fun log_answers :: "'rr option list \<Rightarrow> 'rr World \<Rightarrow> panic + 'rr World" where
  "log_answers [] w = Inr w"
| "log_answers (answer # answers) w =
     (case answer of
        None \<Rightarrow> Inl NilDereference
      | Some rr \<Rightarrow> log_answers answers (w\<lparr> logged := logged w @ [Responding answer] \<rparr>))"

text \<open>
  Lines 21 to 110: the handler.  It returns the world after the call, or the panic that
  ended the call before anything was written.
\<close>

definition newDNSHandler ::
  "(string \<Rightarrow> 'ip option) \<Rightarrow> (string \<Rightarrow> string + 'rr option) \<Rightarrow> Records \<Rightarrow> int \<Rightarrow> int \<Rightarrow> string \<Rightarrow>
   bool \<Rightarrow> 'rr World \<Rightarrow> 'rr Msg \<Rightarrow> panic + 'rr World"
where
  "newDNSHandler ParseIP NewRR records aDelay aaaaDelay authority alternateRecords w r =
     (let m = (SetReply new_Msg r)\<lparr> Compress := False \<rparr>
      in if Opcode r \<noteq> OpcodeQuery then
           Inr (w\<lparr> logged := logged w @ [GotNonQuery r], sent := sent w @ [m] \<rparr>)
         else
           (case questions_loop ParseIP NewRR records aDelay aaaaDelay alternateRecords
                   (Questions m) (m, w) of
              Inl e \<Rightarrow> Inl e
            | Inr (m1, w1) \<Rightarrow>
                (case authority_step NewRR authority m1 of
                   Inl e \<Rightarrow> Inl e
                 | Inr m2 \<Rightarrow>
                     let m3 = m2\<lparr> Authoritative := True \<rparr>
                     in (case log_answers (Answer m3) w1 of
                           Inl e \<Rightarrow> Inl e
                         | Inr w2 \<Rightarrow> Inr (w2\<lparr> sent := sent w2 @ [m3] \<rparr>)))))"

section \<open>What one call computes, in closed form\<close>

text \<open>
  The functions of this section are not translations of source lines.  They say, as
  plain list functions, what the loops and branches of the handler compute; the lemmas
  further down prove that the handler computes exactly that.
\<close>

text \<open>The records the loop over the addresses appends, and the failures it logs.\<close>

fun built_records ::
  "(string \<Rightarrow> 'ip option) \<Rightarrow> (string \<Rightarrow> string + 'rr option) \<Rightarrow> string \<Rightarrow> string \<Rightarrow> string list \<Rightarrow> 'rr option list"
where
  "built_records ParseIP NewRR d queryType [] = []"
| "built_records ParseIP NewRR d queryType (ip # ips) =
     (if ParseIP ip = None then built_records ParseIP NewRR d queryType ips
      else (case NewRR (d @ '' '' @ queryType @ '' '' @ ip) of
              Inl e \<Rightarrow> built_records ParseIP NewRR d queryType ips
            | Inr rr \<Rightarrow> rr # built_records ParseIP NewRR d queryType ips))"

fun built_failures ::
  "(string \<Rightarrow> 'ip option) \<Rightarrow> (string \<Rightarrow> string + 'rr option) \<Rightarrow> string \<Rightarrow> string \<Rightarrow> string list \<Rightarrow> 'rr LogLine list"
where
  "built_failures ParseIP NewRR d queryType [] = []"
| "built_failures ParseIP NewRR d queryType (ip # ips) =
     (if ParseIP ip = None then built_failures ParseIP NewRR d queryType ips
      else (case NewRR (d @ '' '' @ queryType @ '' '' @ ip) of
              Inl e \<Rightarrow> FailedRR e # built_failures ParseIP NewRR d queryType ips
            | Inr rr \<Rightarrow> built_failures ParseIP NewRR d queryType ips))"

text \<open>The CNAME record of a question: none, or the one that could be built.\<close>

definition cname_records :: "(string \<Rightarrow> string + 'rr option) \<Rightarrow> Question \<Rightarrow> 'rr option list" where
  "cname_records NewRR q =
     (if HasPrefix (Name q) ''cname.''
      then (case NewRR (Name q @ '' CNAME '' @ TrimPrefix (Name q) ''cname.'') of
              Inr rr \<Rightarrow> [rr] | Inl e \<Rightarrow> [])
      else [])"

text \<open>The answer set, the type name and the delay that the \<^verbatim>\<open>switch\<close> chooses.\<close>

definition question_answers :: "Records \<Rightarrow> Question \<Rightarrow> string list" where
  "question_answers records q =
     fst (select_answers records 0 0 (HasPrefix (Name q) ''cname.'') (Qtype q))"

definition question_type :: "Question \<Rightarrow> string" where
  "question_type q = (if Qtype q = TypeA then ''A'' else if Qtype q = TypeAAAA then ''AAAA'' else [])"

definition question_delay :: "int \<Rightarrow> int \<Rightarrow> Question \<Rightarrow> int" where
  "question_delay aDelay aaaaDelay q =
     (if Qtype q = TypeA then aDelay else if Qtype q = TypeAAAA then aaaaDelay else 0)"

text \<open>Everything the body of the loop appends to the answer section, before alternation.\<close>

definition question_records ::
  "(string \<Rightarrow> 'ip option) \<Rightarrow> (string \<Rightarrow> string + 'rr option) \<Rightarrow> Records \<Rightarrow> Question \<Rightarrow> 'rr option list"
where
  "question_records ParseIP NewRR records q =
     cname_records NewRR q @
     built_records ParseIP NewRR (TrimPrefix (Name q) ''cname.'') (question_type q)
       (question_answers records q)"

text \<open>The log lines of the body of the loop.\<close>

definition question_log ::
  "(string \<Rightarrow> 'ip option) \<Rightarrow> (string \<Rightarrow> string + 'rr option) \<Rightarrow> Records \<Rightarrow> int \<Rightarrow> int \<Rightarrow> Question \<Rightarrow>
   'rr LogLine list"
where
  "question_log ParseIP NewRR records aDelay aaaaDelay q =
     (if HasPrefix (Name q) ''cname.''
      then [QueryCNAME (Name q) (TrimPrefix (Name q) ''cname.'')] else []) @
     [QueryFor (question_type q) (Name q) (question_delay aDelay aaaaDelay q)] @
     built_failures ParseIP NewRR (TrimPrefix (Name q) ''cname.'') (question_type q)
       (question_answers records q)"

text \<open>The authority section of the reply to a question.\<close>

definition authority_records :: "(string \<Rightarrow> string + 'rr option) \<Rightarrow> string \<Rightarrow> Question \<Rightarrow> 'rr option list" where
  "authority_records NewRR authority q =
     (if authority \<noteq> []
      then (case NewRR (Name q @ '' NS '' @ authority) of Inr rr \<Rightarrow> [rr] | Inl e \<Rightarrow> [])
      else [])"

text \<open>
  The answer set of a question as the specification words it: for a query of type A
  (of type AAAA) whose name carries the prefix \<^verbatim>\<open>cname.\<close>, the CNAME-targeted A (AAAA)
  set when that set is non-empty and otherwise the plain A (AAAA) set; for a name without
  the prefix, the plain set.  A query of another type has no answer set.
\<close>

definition spec_answer_set :: "Records \<Rightarrow> Question \<Rightarrow> string list" where
  "spec_answer_set records q =
     (if Qtype q = TypeA then
        (if HasPrefix (Name q) ''cname.'' then
           (if CNAMEA records \<noteq> [] then CNAMEA records else A records)
         else A records)
      else if Qtype q = TypeAAAA then
        (if HasPrefix (Name q) ''cname.'' then
           (if CNAMEAAAA records \<noteq> [] then CNAMEAAAA records else AAAA records)
         else AAAA records)
      else [])"

text \<open>The answer sections of the replies written so far; none after a panic.\<close>

definition answers_sent :: "panic + 'rr World \<Rightarrow> 'rr option list list" where
  "answers_sent res = (case res of Inl e \<Rightarrow> [] | Inr w \<Rightarrow> map Answer (sent w))"

text \<open>The authority sections of the replies written so far; none after a panic.\<close>

definition authority_sent :: "panic + 'rr World \<Rightarrow> 'rr option list list" where
  "authority_sent res = (case res of Inl e \<Rightarrow> [] | Inr w \<Rightarrow> map Ns (sent w))"

section \<open>Example inputs\<close>

text \<open>
  Concrete inputs for the instances further down.  \<open>example_ParseIP\<close> is
  \<^verbatim>\<open>net.ParseIP\<close> on the strings used there: the two dotted quads and the IPv6
  literal \<^verbatim>\<open>::1\<close> parse, and \<^verbatim>\<open>not-an-ip\<close> does not.  \<open>example_NewRR\<close> is
  \<^verbatim>\<open>dns.NewRR\<close> on the texts used there, a record being kept as its text: a text that
  starts with a semicolon is a comment and gives \<^verbatim>\<open>nil\<close> without an error, an A record
  with the IPv6 literal is an error (its text is abridged), and the other texts of the
  examples are well-formed records.
\<close>

definition example_ParseIP :: "string \<Rightarrow> string option" where
  "example_ParseIP s =
     (if s = ''1.1.1.1'' \<or> s = ''2.2.2.2'' \<or> s = ''::1'' then Some s else None)"

definition example_NewRR :: "string \<Rightarrow> string + string option" where
  "example_NewRR s =
     (if HasPrefix s '';'' then Inr None
      else if s = ''example.com. A ::1'' then Inl ''dns: bad A A''
      else Inr (Some s))"

definition example_world :: "string World" where
  "example_world = \<lparr> choiceMap = Map.empty, sent = [], slept = [], logged = [] \<rparr>"

definition example_query :: "string \<Rightarrow> 16 word \<Rightarrow> string Msg" where
  "example_query n t =
     new_Msg\<lparr> MsgId := 7, RecursionDesired := True,
              Questions := [\<lparr> Name = n, Qtype = t, Qclass = 1 \<rparr>] \<rparr>"

definition example_update :: "string Msg" where
  "example_update = new_Msg\<lparr> MsgId := 7, Opcode := 5 \<rparr>"

definition example_records :: Records where
  "example_records = \<lparr> A = [''1.1.1.1'', ''2.2.2.2''], AAAA = [], CNAMEA = [], CNAMEAAAA = [] \<rparr>"

definition example_no_question :: "string Msg" where
  "example_no_question = new_Msg\<lparr> MsgId := 7 \<rparr>"

text \<open>
  More configurations: one whose only A entry is not an address, one with a single
  valid A entry, one with an invalid entry between two valid ones, one whose A set
  starts with an IPv6 literal, and one with a CNAME-targeted A set.
\<close>

definition example_invalid_records :: Records where
  "example_invalid_records = \<lparr> A = [''not-an-ip''], AAAA = [], CNAMEA = [], CNAMEAAAA = [] \<rparr>"

definition example_single_record :: Records where
  "example_single_record = \<lparr> A = [''1.1.1.1''], AAAA = [], CNAMEA = [], CNAMEAAAA = [] \<rparr>"

definition example_mixed_records :: Records where
  "example_mixed_records =
     \<lparr> A = [''1.1.1.1'', ''not-an-ip'', ''2.2.2.2''], AAAA = [], CNAMEA = [], CNAMEAAAA = [] \<rparr>"

definition example_family_records :: Records where
  "example_family_records =
     \<lparr> A = [''::1'', ''1.1.1.1''], AAAA = [], CNAMEA = [], CNAMEAAAA = [] \<rparr>"

definition example_cname_records :: Records where
  "example_cname_records =
     \<lparr> A = [''1.1.1.1''], AAAA = [], CNAMEA = [''2.2.2.2''], CNAMEAAAA = [] \<rparr>"

section \<open>The handler in closed form\<close>

lemma build_answers_eq:
  "build_answers P N d qt ips (m, w) =
     (m\<lparr> Answer := Answer m @ built_records P N d qt ips \<rparr>,
      w\<lparr> logged := logged w @ built_failures P N d qt ips \<rparr>)"
proof (induction ips arbitrary: m w)
  case Nil
  show ?case by simp
next
  case (Cons ip ips)
  show ?case
  proof (cases "P ip")
    case None
    then show ?thesis by (simp add: Cons.IH)
  next
    case (Some a)
    then show ?thesis by (cases "N (d @ '' '' @ qt @ '' '' @ ip)") (simp_all add: Cons.IH)
  qed
qed

lemma SetReply_Answer: "Answer (SetReply new_Msg r) = []"
  by (simp add: SetReply_def new_Msg_def Let_def)

lemma SetReply_Ns: "Ns (SetReply new_Msg r) = []"
  by (simp add: SetReply_def new_Msg_def Let_def)

lemma SetReply_Authoritative: "Authoritative (SetReply new_Msg r) = False"
  by (simp add: SetReply_def new_Msg_def Let_def)

lemma SetReply_Questions: "Questions (SetReply new_Msg r) = take 1 (Questions r)"
  by (cases "Questions r") (simp_all add: SetReply_def new_Msg_def Let_def)

lemma handler_nonquery:
  "Opcode r \<noteq> OpcodeQuery \<Longrightarrow>
   newDNSHandler P N recs ad aad auth alt w r =
     Inr (w\<lparr> logged := logged w @ [GotNonQuery r],
             sent := sent w @ [(SetReply new_Msg r)\<lparr> Compress := False \<rparr>] \<rparr>)"
  by (simp add: newDNSHandler_def Let_def)

lemma log_answers_eq:
  "log_answers answers w =
     (if None \<in> set answers then Inl NilDereference
      else Inr (w\<lparr> logged := logged w @ map Responding answers \<rparr>))"
  by (induction answers arbitrary: w) (auto split: option.splits)

lemma handler_query:
  "Opcode r = OpcodeQuery \<Longrightarrow>
   newDNSHandler P N recs ad aad auth alt w r =
     (case questions_loop P N recs ad aad alt (take 1 (Questions r))
             ((SetReply new_Msg r)\<lparr> Compress := False \<rparr>, w) of
        Inl e \<Rightarrow> Inl e
      | Inr (m1, w1) \<Rightarrow>
          (case authority_step N auth m1 of
             Inl e \<Rightarrow> Inl e
           | Inr m2 \<Rightarrow>
               if None \<in> set (Answer m2) then Inl NilDereference
               else Inr (w1\<lparr> sent := sent w1 @ [m2\<lparr> Authoritative := True \<rparr>],
                            logged := logged w1 @ map Responding (Answer m2) \<rparr>)))"
  by (simp add: newDNSHandler_def Let_def SetReply_Questions log_answers_eq
      split: sum.splits prod.splits)

lemma TrimPrefix_no_prefix: "\<not> HasPrefix s p \<Longrightarrow> TrimPrefix s p = s"
  by (simp add: TrimPrefix_def)

lemma TrimPrefix_if: "(if HasPrefix s p then TrimPrefix s p else s) = TrimPrefix s p"
  by (simp add: TrimPrefix_def)

lemma select_answers_eq:
  "select_answers recs ad aad (HasPrefix (Name q) ''cname.'') (Qtype q) =
     (question_answers recs q, question_type q, question_delay ad aad q)"
  by (simp add: select_answers_def question_answers_def question_type_def question_delay_def)

lemma cname_step_eq:
  "cname_step N q (m, w) =
     (HasPrefix (Name q) ''cname.'',
      m\<lparr> Answer := Answer m @ cname_records N q \<rparr>,
      w\<lparr> logged := logged w @
            (if HasPrefix (Name q) ''cname.''
             then [QueryCNAME (Name q) (TrimPrefix (Name q) ''cname.'')] else []) \<rparr>)"
  by (simp add: cname_step_def cname_records_def Let_def split: sum.splits)

lemma question_step_eq:
  "question_step P N recs ad aad alt q (m, w) =
     (if alt \<and> question_answers recs q \<noteq> []
      then alternate (Name q)
             (m\<lparr> Answer := Answer m @ question_records P N recs q \<rparr>,
              w\<lparr> slept := slept w @ [question_delay ad aad q],
                  logged := logged w @ question_log P N recs ad aad q \<rparr>)
      else Inr (m\<lparr> Answer := Answer m @ question_records P N recs q \<rparr>,
                w\<lparr> slept := slept w @ [question_delay ad aad q],
                    logged := logged w @ question_log P N recs ad aad q \<rparr>))"
  by (simp add: question_step_def cname_step_eq select_answers_eq build_answers_eq
      question_records_def question_log_def TrimPrefix_if Let_def)

lemma alternate_eq:
  "alternate name (m, w) =
     (case index_slice (Answer m) (wrap_int64 (map_read (choiceMap w) name + 1) smod 2) of
        Inl e \<Rightarrow> Inl e
      | Inr rr \<Rightarrow>
          Inr (m\<lparr> Answer := [rr] \<rparr>,
               w\<lparr> choiceMap := (choiceMap w)(name \<mapsto> wrap_int64 (map_read (choiceMap w) name + 1)) \<rparr>))"
  by (cases "choiceMap w name")
    (auto simp: alternate_def map_read_def Let_def split: sum.splits)

lemma questions_loop_single:
  "questions_loop P N recs ad aad alt [q] mw = question_step P N recs ad aad alt q mw"
  by (simp split: sum.splits)

lemma built_records_filter:
  "built_records P N d qt ips =
     List.map_filter (\<lambda>ip. case N (d @ '' '' @ qt @ '' '' @ ip) of Inr rr \<Rightarrow> Some rr | Inl e \<Rightarrow> None)
       (filter (\<lambda>ip. P ip \<noteq> None) ips)"
  by (induction ips) (auto split: sum.splits)

lemma index_slice_0: "index_slice (q # qs) 0 = Inr q"
  by (simp add: index_slice_def)

lemma index_slice_Nil: "index_slice [] i = Inl (IndexOutOfRange i 0)"
  by (simp add: index_slice_def)

lemma authority_step_eq:
  "Questions m = q # qs \<Longrightarrow>
   authority_step N auth m = Inr (m\<lparr> Ns := Ns m @ authority_records N auth q \<rparr>)"
  by (simp add: authority_step_def authority_records_def index_slice_0 split: sum.splits)

lemma authority_step_none: "authority_step N [] m = Inr m"
  by (simp add: authority_step_def)

lemma authority_step_no_question:
  "Questions m = [] \<Longrightarrow> auth \<noteq> [] \<Longrightarrow> authority_step N auth m = Inl (IndexOutOfRange 0 0)"
  by (simp add: authority_step_def index_slice_Nil)

lemma handler_plain:
  assumes "Opcode r = OpcodeQuery" and "Questions r = q # qs"
    and "\<not> (alt \<and> question_answers recs q \<noteq> [])"
  shows "newDNSHandler P N recs ad aad auth alt w r =
     (if None \<in> set (question_records P N recs q) then Inl NilDereference
      else Inr (w\<lparr> sent := sent w @
                 [(SetReply new_Msg r)\<lparr> Authoritative := True, Compress := False,
                     Answer := question_records P N recs q,
                     Ns := authority_records N auth q \<rparr>],
             slept := slept w @ [question_delay ad aad q],
             logged := logged w @ question_log P N recs ad aad q @
                         map Responding (question_records P N recs q) \<rparr>))"
  using assms
  by (auto simp: handler_query questions_loop_single question_step_eq authority_step_eq
      SetReply_Questions SetReply_Answer SetReply_Ns)

lemma handler_alternating:
  assumes "Opcode r = OpcodeQuery" and "Questions r = q # qs"
    and "alt" and "question_answers recs q \<noteq> []"
  shows "newDNSHandler P N recs ad aad auth alt w r =
     (case index_slice (question_records P N recs q)
             (wrap_int64 (map_read (choiceMap w) (Name q) + 1) smod 2) of
        Inl e \<Rightarrow> Inl e
      | Inr rr \<Rightarrow>
          if rr = None then Inl NilDereference
          else
            Inr (w\<lparr> choiceMap := (choiceMap w)(Name q \<mapsto> wrap_int64 (map_read (choiceMap w) (Name q) + 1)),
                  sent := sent w @
                    [(SetReply new_Msg r)\<lparr> Authoritative := True, Compress := False,
                        Answer := [rr], Ns := authority_records N auth q \<rparr>],
                  slept := slept w @ [question_delay ad aad q],
                  logged := logged w @ question_log P N recs ad aad q @ [Responding rr] \<rparr>))"
  using assms
  by (simp add: handler_query questions_loop_single question_step_eq alternate_eq
      authority_step_eq SetReply_Questions SetReply_Answer SetReply_Ns map_read_def
      split: sum.splits)

lemma handler_no_question:
  assumes "Opcode r = OpcodeQuery" and "Questions r = []"
  shows "newDNSHandler P N recs ad aad auth alt w r =
     (if auth \<noteq> [] then Inl (IndexOutOfRange 0 0)
      else Inr (w\<lparr> sent := sent w @
                 [(SetReply new_Msg r)\<lparr> Authoritative := True, Compress := False \<rparr>] \<rparr>))"
  using assms
  by (simp add: handler_query authority_step_none authority_step_no_question
      SetReply_Questions SetReply_Answer)

lemma example_query_simps:
  "Opcode (example_query n t) = OpcodeQuery"
  "Questions (example_query n t) = [\<lparr> Name = n, Qtype = t, Qclass = 1 \<rparr>]"
  by (simp_all add: example_query_def new_Msg_def OpcodeQuery_def)

lemma wrap_int64_id: "- (2 ^ 63) \<le> x \<Longrightarrow> x < 2 ^ 63 \<Longrightarrow> wrap_int64 x = x"
  by (simp add: wrap_int64_def)

lemma smod_2_nonneg: "0 \<le> (x::int) \<Longrightarrow> x smod 2 = x mod 2"
  by (cases "x = 0") (simp_all add: signed_modulo_int_def)

lemma index_slice_in_range:
  "0 \<le> i \<Longrightarrow> i < int (length xs) \<Longrightarrow> index_slice xs i = Inr (xs ! nat i)"
  by (simp add: index_slice_def)

lemma index_slice_out_of_range:
  "int (length xs) \<le> i \<Longrightarrow> index_slice xs i = Inl (IndexOutOfRange i (length xs))"
  by (simp add: index_slice_def)

lemma direct_records:
  "\<not> HasPrefix (Name q) ''cname.'' \<Longrightarrow>
   question_records P N recs q =
     built_records P N (Name q) (question_type q) (question_answers recs q)"
  by (simp add: question_records_def cname_records_def TrimPrefix_no_prefix)

lemma direct_A_answers:
  "\<not> HasPrefix (Name q) ''cname.'' \<Longrightarrow> Qtype q = TypeA \<Longrightarrow> question_answers recs q = A recs"
  by (simp add: question_answers_def select_answers_def)

lemma question_type_A: "Qtype q = TypeA \<Longrightarrow> question_type q = ''A''"
  by (simp add: question_type_def)

lemma alternating_reply:
  assumes "Opcode r = OpcodeQuery" and "Questions r = q # qs"
    and "question_answers recs q \<noteq> []"
    and "2 \<le> length (question_records P N recs q)"
    and "map_read (choiceMap w) (Name q) = c" and "0 \<le> c" and "c < 2 ^ 63 - 1"
    and "question_records P N recs q ! nat ((c + 1) mod 2) \<noteq> None"
  shows "\<exists>w' m. newDNSHandler P N recs ad aad auth True w r = Inr w' \<and>
           sent w' = sent w @ [m] \<and>
           Answer m = [question_records P N recs q ! nat ((c + 1) mod 2)] \<and>
           choiceMap w' = (choiceMap w)(Name q \<mapsto> c + 1)"
proof -
  have w: "wrap_int64 (c + 1) = c + 1"
    using assms(6,7) by (intro wrap_int64_id) simp_all
  have s: "(c + 1) smod 2 = (c + 1) mod 2"
    using assms(6) by (intro smod_2_nonneg) simp
  have "(c + 1) mod 2 < 2" by simp
  then have "(c + 1) mod 2 < int (length (question_records P N recs q))"
    using assms(4) by linarith
  then have i: "index_slice (question_records P N recs q) ((c + 1) mod 2) =
      Inr (question_records P N recs q ! nat ((c + 1) mod 2))"
    by (intro index_slice_in_range) simp_all
  show ?thesis
    using assms(1-3,8) by (simp add: handler_alternating assms(5) w s i)
qed

lemma built_records_no_nil:
  "\<forall>ip \<in> set ips. P ip \<noteq> None \<longrightarrow> N (d @ '' '' @ qt @ '' '' @ ip) \<noteq> Inr None \<Longrightarrow>
   None \<notin> set (built_records P N d qt ips)"
  by (induction ips) (auto split: sum.splits)

lemma length_map_filter_filter:
  "length (List.map_filter f xs) = length (filter (\<lambda>x. f x \<noteq> None) xs)"
  by (induction xs) (auto simp: map_filter_simps)

lemma question_answers_spec: "question_answers records q = spec_answer_set records q"
  by (simp add: question_answers_def select_answers_def spec_answer_set_def)

lemma map_read_fresh: "cm k = None \<Longrightarrow> map_read cm k = 0"
  by (simp add: map_read_def)

lemma map_read_upd: "map_read (cm(k \<mapsto> v)) k = v"
  by (simp add: map_read_def)

lemma fresh_counter_index: "wrap_int64 (map_read Map.empty k + 1) smod 2 = 1"
  by (simp add: map_read_def wrap_int64_def signed_modulo_int_def)

section \<open>The example inputs, evaluated\<close>

lemma example_world_simps:
  "choiceMap example_world = Map.empty" "sent example_world = []"
  "slept example_world = []" "logged example_world = []"
  by (simp_all add: example_world_def)

lemma example_no_prefix: "\<not> HasPrefix ''example.com.'' ''cname.''"
  by (simp add: HasPrefix_def)

lemma example_prefix: "HasPrefix ''cname.example.com.'' ''cname.''"
  by (simp add: HasPrefix_def)

lemma example_trim: "TrimPrefix ''cname.example.com.'' ''cname.'' = ''example.com.''"
  by (simp add: TrimPrefix_def HasPrefix_def)

lemma example_ParseIP_simps:
  "example_ParseIP ''1.1.1.1'' = Some ''1.1.1.1''"
  "example_ParseIP ''2.2.2.2'' = Some ''2.2.2.2''"
  "example_ParseIP ''::1'' = Some ''::1''"
  "example_ParseIP ''not-an-ip'' = None"
  by (simp_all add: example_ParseIP_def)

lemma example_NewRR_simps:
  "example_NewRR ''example.com. A 1.1.1.1'' = Inr (Some ''example.com. A 1.1.1.1'')"
  "example_NewRR ''example.com. A 2.2.2.2'' = Inr (Some ''example.com. A 2.2.2.2'')"
  "example_NewRR ''example.com. A ::1'' = Inl ''dns: bad A A''"
  "example_NewRR ''cname.example.com. CNAME example.com.'' =
     Inr (Some ''cname.example.com. CNAME example.com.'')"
  "example_NewRR ''example.com. NS ns.example.com.'' =
     Inr (Some ''example.com. NS ns.example.com.'')"
  by (simp_all add: example_NewRR_def HasPrefix_def)

lemma example_direct_question:
  "question_answers example_records \<lparr> Name = ''example.com.'', Qtype = TypeA, Qclass = 1 \<rparr> =
     [''1.1.1.1'', ''2.2.2.2'']"
  "question_records example_ParseIP example_NewRR example_records
     \<lparr> Name = ''example.com.'', Qtype = TypeA, Qclass = 1 \<rparr> =
     [Some ''example.com. A 1.1.1.1'', Some ''example.com. A 2.2.2.2'']"
  using example_no_prefix
  by (simp_all add: direct_records direct_A_answers question_type_A example_records_def
      example_ParseIP_simps example_NewRR_simps)

lemma example_invalid_question:
  "question_answers example_invalid_records
     \<lparr> Name = ''example.com.'', Qtype = TypeA, Qclass = 1 \<rparr> = [''not-an-ip'']"
  "question_records example_ParseIP example_NewRR example_invalid_records
     \<lparr> Name = ''example.com.'', Qtype = TypeA, Qclass = 1 \<rparr> = []"
  using example_no_prefix
  by (simp_all add: direct_records direct_A_answers question_type_A example_invalid_records_def
      example_ParseIP_simps)

lemma example_single_question:
  "question_answers example_single_record
     \<lparr> Name = ''example.com.'', Qtype = TypeA, Qclass = 1 \<rparr> = [''1.1.1.1'']"
  "question_records example_ParseIP example_NewRR example_single_record
     \<lparr> Name = ''example.com.'', Qtype = TypeA, Qclass = 1 \<rparr> =
     [Some ''example.com. A 1.1.1.1'']"
  using example_no_prefix
  by (simp_all add: direct_records direct_A_answers question_type_A example_single_record_def
      example_ParseIP_simps example_NewRR_simps)

lemma example_family_question:
  "question_records example_ParseIP example_NewRR example_family_records
     \<lparr> Name = ''example.com.'', Qtype = TypeA, Qclass = 1 \<rparr> =
     [Some ''example.com. A 1.1.1.1'']"
  using example_no_prefix
  by (simp add: direct_records direct_A_answers question_type_A example_family_records_def
      example_ParseIP_simps example_NewRR_simps)

lemma example_cname_question:
  "question_answers example_single_record
     \<lparr> Name = ''cname.example.com.'', Qtype = TypeA, Qclass = 1 \<rparr> = [''1.1.1.1'']"
  "question_records example_ParseIP example_NewRR example_single_record
     \<lparr> Name = ''cname.example.com.'', Qtype = TypeA, Qclass = 1 \<rparr> =
     [Some ''cname.example.com. CNAME example.com.'', Some ''example.com. A 1.1.1.1'']"
  using example_prefix
  by (simp_all add: question_records_def cname_records_def question_answers_def
      select_answers_def question_type_A example_trim example_single_record_def
      example_ParseIP_simps example_NewRR_simps)

lemma example_cname_target_question:
  "question_records example_ParseIP example_NewRR example_cname_records
     \<lparr> Name = ''cname.example.com.'', Qtype = TypeA, Qclass = 1 \<rparr> =
     [Some ''cname.example.com. CNAME example.com.'', Some ''example.com. A 2.2.2.2'']"
  using example_prefix
  by (simp add: question_records_def cname_records_def question_answers_def
      select_answers_def question_type_A example_trim example_cname_records_def
      example_ParseIP_simps example_NewRR_simps)

text \<open>
  A name that starts with a semicolon makes every record text a comment: the record is
  \<^verbatim>\<open>nil\<close>, it is appended at line 84, and logging it at line 106 ends the call.
\<close>

lemma nil_record_panics:
  "newDNSHandler example_ParseIP example_NewRR example_single_record 0 0 [] False
     example_world (example_query '';x.'' TypeA) = Inl NilDereference"
proof -
  let ?q = "\<lparr> Name = '';x.'', Qtype = TypeA, Qclass = 1 \<rparr>"
  let ?r = "example_query '';x.'' TypeA"
  have h1: "Opcode ?r = OpcodeQuery" and h2: "Questions ?r = ?q # []"
    by (simp_all add: example_query_simps)
  have np: "\<not> HasPrefix (Name ?q) ''cname.''" by (simp add: HasPrefix_def)
  have "question_records example_ParseIP example_NewRR example_single_record ?q = [None]"
    by (simp add: direct_records [OF np] direct_A_answers [OF np] question_type_A
        example_single_record_def example_ParseIP_simps example_NewRR_def HasPrefix_def)
  moreover have "\<not> (False \<and> question_answers example_single_record ?q \<noteq> [])" by simp
  ultimately show ?thesis
    by (simp add: handler_plain [OF h1 h2])
qed

section \<open>The claims\<close>

subsection \<open>Messages that are not standard queries\<close>

text \<open>
  Claim C6.  For every inbound message whose opcode is not the standard query opcode,
  whatever the configuration and the state, the handler does not panic: it logs the
  message and writes exactly one reply, whose answer section is empty and whose
  authoritative flag is unset.
\<close>

theorem non_query_opcode_reply:
  assumes "Opcode r \<noteq> OpcodeQuery"
  shows "\<exists>m. newDNSHandler ParseIP NewRR records aDelay aaaaDelay authority alternateRecords w r =
               Inr (w\<lparr> sent := sent w @ [m], logged := logged w @ [GotNonQuery r] \<rparr>) \<and>
             Answer m = [] \<and> \<not> Authoritative m"
proof -
  let ?m = "(SetReply new_Msg r)\<lparr> Compress := False \<rparr>"
  have "Answer ?m = []" and "\<not> Authoritative ?m"
    by (simp_all add: SetReply_Answer SetReply_Authoritative)
  moreover have "newDNSHandler ParseIP NewRR records aDelay aaaaDelay authority alternateRecords w r =
      Inr (w\<lparr> sent := sent w @ [?m], logged := logged w @ [GotNonQuery r] \<rparr>)"
    using assms by (simp add: handler_nonquery)
  ultimately show ?thesis by blast
qed

text \<open>An UPDATE message (opcode 5), with an authority configured and alternation on.\<close>

theorem non_query_opcode_reply_witness:
  "Opcode example_update \<noteq> OpcodeQuery \<and>
   (\<exists>m. newDNSHandler example_ParseIP example_NewRR example_records 0 0 ''ns.example.com.'' True
           example_world example_update =
         Inr (example_world\<lparr> sent := sent example_world @ [m],
                 logged := logged example_world @ [GotNonQuery example_update] \<rparr>) \<and>
        Answer m = [] \<and> \<not> Authoritative m)"
proof -
  have h: "Opcode example_update \<noteq> OpcodeQuery"
    by (simp add: example_update_def new_Msg_def OpcodeQuery_def)
  show ?thesis
    using h non_query_opcode_reply [OF h, of example_ParseIP example_NewRR example_records 0 0
        "''ns.example.com.''" True example_world]
    by simp
qed

subsection \<open>Queries without a question\<close>

text \<open>
  Claim C9.  A message with the standard query opcode and an empty question section:
  with a non-empty authority configured the handler reads the first element of the
  empty question list and ends in an index panic, before anything is written; with no
  authority configured the loop runs zero times and one reply is written, with empty
  answer and authority sections and the authoritative flag set.
\<close>

theorem empty_question_section:
  assumes "Opcode r = OpcodeQuery" and "Questions r = []"
  shows "(authority \<noteq> [] \<longrightarrow>
            newDNSHandler ParseIP NewRR records aDelay aaaaDelay authority alternateRecords w r =
              Inl (IndexOutOfRange 0 0)) \<and>
         (\<exists>m. newDNSHandler ParseIP NewRR records aDelay aaaaDelay [] alternateRecords w r =
                 Inr (w\<lparr> sent := sent w @ [m] \<rparr>) \<and>
               Answer m = [] \<and> Ns m = [] \<and> Authoritative m)"
proof
  show "authority \<noteq> [] \<longrightarrow>
      newDNSHandler ParseIP NewRR records aDelay aaaaDelay authority alternateRecords w r =
        Inl (IndexOutOfRange 0 0)"
    using assms by (simp add: handler_no_question)
next
  let ?m = "(SetReply new_Msg r)\<lparr> Authoritative := True, Compress := False \<rparr>"
  have "Answer ?m = []" and "Ns ?m = []" and "Authoritative ?m"
    by (simp_all add: SetReply_Answer SetReply_Ns)
  moreover have "newDNSHandler ParseIP NewRR records aDelay aaaaDelay [] alternateRecords w r =
      Inr (w\<lparr> sent := sent w @ [?m] \<rparr>)"
    using assms by (simp add: handler_no_question)
  ultimately show "\<exists>m. newDNSHandler ParseIP NewRR records aDelay aaaaDelay [] alternateRecords w r =
                 Inr (w\<lparr> sent := sent w @ [m] \<rparr>) \<and>
               Answer m = [] \<and> Ns m = [] \<and> Authoritative m"
    by blast
qed

theorem empty_question_section_witness:
  "Opcode example_no_question = OpcodeQuery \<and> Questions example_no_question = [] \<and>
   newDNSHandler example_ParseIP example_NewRR example_records 0 0 ''ns.example.com.'' False
      example_world example_no_question = Inl (IndexOutOfRange 0 0) \<and>
   answers_sent (newDNSHandler example_ParseIP example_NewRR example_records 0 0 [] False
      example_world example_no_question) = [ [] ]"
proof -
  have h1: "Opcode example_no_question = OpcodeQuery"
    by (simp add: example_no_question_def new_Msg_def OpcodeQuery_def)
  have h2: "Questions example_no_question = []"
    by (simp add: example_no_question_def new_Msg_def)
  show ?thesis
    using h1 h2 empty_question_section [OF h1 h2, of "''ns.example.com.''" example_ParseIP
        example_NewRR example_records 0 0 False example_world]
    by (auto simp: answers_sent_def example_world_def)
qed

subsection \<open>Which answer set a question uses\<close>

text \<open>
  Claim C8.  A message with the standard query opcode and one question, to which the
  handler writes a reply.  The answer section of the reply is built from the answer set
  that the specification names for the question: for type A (AAAA) and a name with the
  prefix \<^verbatim>\<open>cname.\<close>, the CNAME-targeted A (AAAA) set when it is non-empty and the plain
  A (AAAA) set otherwise; for a name without the prefix, the plain set.  The records
  built are the CNAME record of a prefixed name followed by the records of the addresses
  of that set; the reply holds all of them, or, with alternation enabled and a non-empty
  set, the one at the index chosen by the counter.
\<close>

theorem reply_uses_specified_answer_set:
  assumes op: "Opcode r = OpcodeQuery" and qs: "Questions r = [q]"
    and run: "newDNSHandler ParseIP NewRR records aDelay aaaaDelay authority alternateRecords w r =
                Inr w'"
  shows "\<exists>m. sent w' = sent w @ [m] \<and>
           Answer m =
             (let built = cname_records NewRR q @
                          built_records ParseIP NewRR (TrimPrefix (Name q) ''cname.'')
                            (question_type q) (spec_answer_set records q)
              in if alternateRecords \<and> spec_answer_set records q \<noteq> []
                 then [built ! nat (wrap_int64 (map_read (choiceMap w) (Name q) + 1) smod 2)]
                 else built)"
proof -
  let ?built = "cname_records NewRR q @
      built_records ParseIP NewRR (TrimPrefix (Name q) ''cname.'') (question_type q)
        (spec_answer_set records q)"
  let ?i = "wrap_int64 (map_read (choiceMap w) (Name q) + 1) smod 2"
  have qr: "question_records ParseIP NewRR records q = ?built"
    by (simp add: question_records_def question_answers_spec)
  have qs': "Questions r = q # []" by (simp add: qs)
  show ?thesis
  proof (cases "alternateRecords \<and> spec_answer_set records q \<noteq> []")
    case False
    then have plain: "\<not> (alternateRecords \<and> question_answers records q \<noteq> [])"
      by (simp add: question_answers_spec)
    let ?m = "(SetReply new_Msg r)\<lparr> Authoritative := True, Compress := False,
                 Answer := question_records ParseIP NewRR records q,
                 Ns := authority_records NewRR authority q \<rparr>"
    have "sent w' = sent w @ [?m]"
      using run handler_plain [OF op qs' plain, of ParseIP NewRR aDelay aaaaDelay authority w]
      by (auto split: if_splits)
    moreover have "Answer ?m = ?built" by (simp add: qr)
    ultimately show ?thesis using False by (intro exI [of _ ?m]) (auto simp: Let_def)
  next
    case True
    then have a: "alternateRecords" and ne: "question_answers records q \<noteq> []"
      by (simp_all add: question_answers_spec)
    from run handler_alternating [OF op qs' a ne, of ParseIP NewRR aDelay aaaaDelay authority w]
    obtain rr where
      idx: "index_slice ?built ?i = Inr rr"
      and w': "w' = w\<lparr> choiceMap := (choiceMap w)(Name q \<mapsto>
                        wrap_int64 (map_read (choiceMap w) (Name q) + 1)),
                     sent := sent w @
                       [(SetReply new_Msg r)\<lparr> Authoritative := True, Compress := False,
                           Answer := [rr], Ns := authority_records NewRR authority q \<rparr>],
                     slept := slept w @ [question_delay aDelay aaaaDelay q],
                     logged := logged w @ question_log ParseIP NewRR records aDelay aaaaDelay q @
                                 [Responding rr] \<rparr>"
      by (auto simp: qr split: sum.splits if_splits)
    let ?m = "(SetReply new_Msg r)\<lparr> Authoritative := True, Compress := False,
                 Answer := [rr], Ns := authority_records NewRR authority q \<rparr>"
    have "rr = ?built ! nat ?i"
      using idx by (auto simp: index_slice_def split: if_splits)
    then have "Answer ?m = [?built ! nat ?i]" by simp
    moreover have "sent w' = sent w @ [?m]" by (simp add: w')
    ultimately show ?thesis using True by (intro exI [of _ ?m]) (simp add: Let_def)
  qed
qed

text \<open>
  A query of type A for \<^verbatim>\<open>cname.example.com.\<close> with the A set \<^verbatim>\<open>1.1.1.1\<close> and the
  CNAME-targeted A set \<^verbatim>\<open>2.2.2.2\<close>: the address served is the CNAME-targeted one.
\<close>

theorem reply_uses_specified_answer_set_witness:
  "Opcode (example_query ''cname.example.com.'' TypeA) = OpcodeQuery \<and>
   Questions (example_query ''cname.example.com.'' TypeA) =
     [\<lparr> Name = ''cname.example.com.'', Qtype = TypeA, Qclass = 1 \<rparr>] \<and>
   spec_answer_set example_cname_records
     \<lparr> Name = ''cname.example.com.'', Qtype = TypeA, Qclass = 1 \<rparr> = [''2.2.2.2''] \<and>
   answers_sent (newDNSHandler example_ParseIP example_NewRR example_cname_records 0 0 [] False
       example_world (example_query ''cname.example.com.'' TypeA)) =
     [ [Some ''cname.example.com. CNAME example.com.'', Some ''example.com. A 2.2.2.2''] ]"
proof -
  let ?q = "\<lparr> Name = ''cname.example.com.'', Qtype = TypeA, Qclass = 1 \<rparr>"
  let ?r = "example_query ''cname.example.com.'' TypeA"
  have h1: "Opcode ?r = OpcodeQuery" and h2: "Questions ?r = [?q]"
    by (simp_all add: example_query_simps)
  have h2': "Questions ?r = ?q # []" by (simp add: h2)
  have set: "spec_answer_set example_cname_records ?q = [''2.2.2.2'']"
    using example_prefix by (simp add: spec_answer_set_def example_cname_records_def)
  have plain: "\<not> (False \<and> question_answers example_cname_records ?q \<noteq> [])" by simp
  obtain w' where
    run: "newDNSHandler example_ParseIP example_NewRR example_cname_records 0 0 [] False
            example_world ?r = Inr w'"
    by (simp add: handler_plain [OF h1 h2' plain] example_cname_target_question)
  from reply_uses_specified_answer_set [OF h1 h2 run] obtain m where
    snt: "sent w' = sent example_world @ [m]"
    and ans: "Answer m =
      cname_records example_NewRR ?q @
      built_records example_ParseIP example_NewRR (TrimPrefix (Name ?q) ''cname.'')
        (question_type ?q) (spec_answer_set example_cname_records ?q)"
    by (auto simp: Let_def)
  have "Answer m =
      [Some ''cname.example.com. CNAME example.com.'', Some ''example.com. A 2.2.2.2'']"
    using example_cname_target_question
    by (simp add: ans question_records_def question_answers_spec)
  then show ?thesis
    using h1 h2 set run snt by (simp add: answers_sent_def example_world_simps)
qed

subsection \<open>Answers to a direct A query\<close>

text \<open>
  Claim C7, as the code has it.  A message with the standard query opcode and one
  question of type A whose name does not start with \<^verbatim>\<open>cname.\<close>, alternation disabled,
  and no configured A address that \<open>ParseIP\<close> accepts for which \<open>NewRR\<close> returns
  \<^verbatim>\<open>nil\<close> without an error.  One reply is written.  Its answer section holds, in the
  configured order, exactly one record for each configured A address that passes both
  checks of the loop: \<open>ParseIP\<close> accepts the address and \<open>NewRR\<close> builds its record.
  Every address that \<open>ParseIP\<close> rejects is left out, and so is every accepted address
  whose record \<open>NewRR\<close> refuses.  When no configured address is accepted, the answer
  section is empty.  (The claim asks for a non-empty A set; the statement holds for the
  empty one too.)
\<close>

theorem direct_A_query_answers:
  assumes "Opcode r = OpcodeQuery" and "Questions r = [q]"
    and "\<not> HasPrefix (Name q) ''cname.''" and "Qtype q = TypeA"
    and nonnil: "\<forall>ip \<in> set (A records).
                   ParseIP ip \<noteq> None \<longrightarrow> NewRR (Name q @ '' A '' @ ip) \<noteq> Inr None"
  shows "\<exists>w' m. newDNSHandler ParseIP NewRR records aDelay aaaaDelay authority False w r = Inr w' \<and>
           sent w' = sent w @ [m] \<and>
           Answer m =
             List.map_filter
               (\<lambda>ip. case NewRR (Name q @ '' A '' @ ip) of Inr rr \<Rightarrow> Some rr | Inl e \<Rightarrow> None)
               (filter (\<lambda>ip. ParseIP ip \<noteq> None) (A records)) \<and>
           None \<notin> set (Answer m) \<and>
           length (Answer m) =
             length (filter (\<lambda>ip. ParseIP ip \<noteq> None \<and>
                                   (\<exists>rr. NewRR (Name q @ '' A '' @ ip) = Inr rr)) (A records)) \<and>
           ((\<forall>ip \<in> set (A records). ParseIP ip = None) \<longrightarrow> Answer m = [])"
proof -
  let ?build = "\<lambda>ip. case NewRR (Name q @ '' A '' @ ip) of Inr rr \<Rightarrow> Some rr | Inl e \<Rightarrow> None"
  let ?valid = "filter (\<lambda>ip. ParseIP ip \<noteq> None) (A records)"
  let ?m = "(SetReply new_Msg r)\<lparr> Authoritative := True, Compress := False,
               Answer := question_records ParseIP NewRR records q,
               Ns := authority_records NewRR authority q \<rparr>"
  have built: "question_records ParseIP NewRR records q =
      built_records ParseIP NewRR (Name q) ''A'' (A records)"
    using assms(3,4) by (simp add: direct_records direct_A_answers question_type_A)
  have recs: "question_records ParseIP NewRR records q = List.map_filter ?build ?valid"
    by (simp add: built built_records_filter)
  have "None \<notin> set (built_records ParseIP NewRR (Name q) ''A'' (A records))"
    using nonnil by (intro built_records_no_nil) simp
  then have nn: "None \<notin> set (question_records ParseIP NewRR records q)"
    by (simp add: built)
  have plain: "\<not> (False \<and> question_answers records q \<noteq> [])" by simp
  have qs': "Questions r = q # []" using assms(2) by simp
  have run: "\<exists>w'. newDNSHandler ParseIP NewRR records aDelay aaaaDelay authority False w r = Inr w' \<and>
      sent w' = sent w @ [?m]"
    using nn by (simp add: handler_plain [OF assms(1) qs' plain])
  have eq: "(?build ip \<noteq> None) = (\<exists>rr. NewRR (Name q @ '' A '' @ ip) = Inr rr)" for ip
    by (cases "NewRR (Name q @ '' A '' @ ip)") simp_all
  have "length (List.map_filter ?build ?valid) =
      length (filter (\<lambda>ip. ?build ip \<noteq> None) ?valid)"
    by (rule length_map_filter_filter)
  also have "\<dots> = length (filter (\<lambda>ip. ParseIP ip \<noteq> None \<and> ?build ip \<noteq> None) (A records))"
    by (simp only: filter_filter)
  also have "\<dots> = length (filter (\<lambda>ip. ParseIP ip \<noteq> None \<and>
                            (\<exists>rr. NewRR (Name q @ '' A '' @ ip) = Inr rr)) (A records))"
    by (simp only: eq)
  finally have count: "length (List.map_filter ?build ?valid) =
      length (filter (\<lambda>ip. ParseIP ip \<noteq> None \<and>
                            (\<exists>rr. NewRR (Name q @ '' A '' @ ip) = Inr rr)) (A records))" .
  have none: "List.map_filter ?build ?valid = []" if "\<forall>ip \<in> set (A records). ParseIP ip = None"
  proof -
    have "?valid = []" using that by (simp add: filter_empty_conv)
    then show ?thesis by (simp add: map_filter_simps)
  qed
  from run obtain w' where
    "newDNSHandler ParseIP NewRR records aDelay aaaaDelay authority False w r = Inr w'"
    and "sent w' = sent w @ [?m]" by blast
  moreover have "Answer ?m = List.map_filter ?build ?valid" using recs by simp
  moreover have "None \<notin> set (Answer ?m)" using nn by simp
  ultimately show ?thesis
    using count none by (intro exI [of _ w'] exI [of _ ?m]) simp
qed

text \<open>The A set \<^verbatim>\<open>1.1.1.1, not-an-ip, 2.2.2.2\<close>: two records, in that order.\<close>

theorem direct_A_query_answers_witness:
  "Opcode (example_query ''example.com.'' TypeA) = OpcodeQuery \<and>
   Questions (example_query ''example.com.'' TypeA) =
     [\<lparr> Name = ''example.com.'', Qtype = TypeA, Qclass = 1 \<rparr>] \<and>
   \<not> HasPrefix ''example.com.'' ''cname.'' \<and>
   answers_sent (newDNSHandler example_ParseIP example_NewRR example_mixed_records 0 0 [] False
       example_world (example_query ''example.com.'' TypeA)) =
     [ [Some ''example.com. A 1.1.1.1'', Some ''example.com. A 2.2.2.2''] ]"
proof -
  let ?q = "\<lparr> Name = ''example.com.'', Qtype = TypeA, Qclass = 1 \<rparr>"
  let ?r = "example_query ''example.com.'' TypeA"
  have h1: "Opcode ?r = OpcodeQuery" and h2: "Questions ?r = [?q]"
    by (simp_all add: example_query_simps)
  have h3: "\<not> HasPrefix (Name ?q) ''cname.''" using example_no_prefix by simp
  have h4: "Qtype ?q = TypeA" by simp
  have h5: "\<forall>ip \<in> set (A example_mixed_records).
      example_ParseIP ip \<noteq> None \<longrightarrow> example_NewRR (Name ?q @ '' A '' @ ip) \<noteq> Inr None"
    by (simp add: example_mixed_records_def example_ParseIP_simps example_NewRR_simps)
  from direct_A_query_answers [where ParseIP = example_ParseIP and NewRR = example_NewRR
      and records = example_mixed_records and aDelay = 0 and aaaaDelay = 0
      and authority = "[]" and w = example_world, OF h1 h2 h3 h4 h5]
  obtain w' m where
    run: "newDNSHandler example_ParseIP example_NewRR example_mixed_records 0 0 [] False
            example_world ?r = Inr w'"
    and snt: "sent w' = sent example_world @ [m]"
    and ans: "Answer m =
      List.map_filter
        (\<lambda>ip. case example_NewRR (Name ?q @ '' A '' @ ip) of Inr rr \<Rightarrow> Some rr | Inl e \<Rightarrow> None)
        (filter (\<lambda>ip. example_ParseIP ip \<noteq> None) (A example_mixed_records))"
    by blast
  have "Answer m = [Some ''example.com. A 1.1.1.1'', Some ''example.com. A 2.2.2.2'']"
    unfolding ans
    by (simp add: example_mixed_records_def example_ParseIP_simps example_NewRR_simps
        map_filter_simps)
  then show ?thesis
    using h1 h2 example_no_prefix run snt
    by (simp add: answers_sent_def example_world_simps)
qed

text \<open>
  Claim C7, as stated, asks for one A record for each syntactically valid configured
  address.  With the A set \<^verbatim>\<open>::1, 1.1.1.1\<close> both addresses are accepted by the address
  check of line 76, but the record of the IPv6 literal cannot be built and is skipped at
  lines 80 to 83: the reply holds one record for two valid addresses.
\<close>

theorem accepted_address_without_record:
  "example_ParseIP ''::1'' = Some ''::1'' \<and>
   example_ParseIP ''1.1.1.1'' = Some ''1.1.1.1'' \<and>
   answers_sent (newDNSHandler example_ParseIP example_NewRR example_family_records 0 0 [] False
       example_world (example_query ''example.com.'' TypeA)) =
     [ [Some ''example.com. A 1.1.1.1''] ]"
proof -
  let ?q = "\<lparr> Name = ''example.com.'', Qtype = TypeA, Qclass = 1 \<rparr>"
  let ?r = "example_query ''example.com.'' TypeA"
  have h1: "Opcode ?r = OpcodeQuery" and h2: "Questions ?r = ?q # []"
    by (simp_all add: example_query_simps)
  have plain: "\<not> (False \<and> question_answers example_family_records ?q \<noteq> [])" by simp
  show ?thesis
    by (simp add: handler_plain [OF h1 h2 plain] example_family_question answers_sent_def
        example_world_simps example_ParseIP_simps)
qed

subsection \<open>Alternation\<close>

text \<open>
  Claim C1, as the code has it.  Alternation enabled, exactly two configured A addresses,
  both accepted by \<open>ParseIP\<close> and both giving a record, a name without the prefix
  \<^verbatim>\<open>cname.\<close> that has no counter yet.  Three queries of type A for the name, one after
  the other, are answered with only the second address, then only the first, then only
  the second again: the counter is incremented before the record is chosen (it is 1, 2,
  3 after the three calls), an odd counter chooses the second record and an even one the
  first.
\<close>

theorem alternation_of_two_addresses:
  assumes op: "Opcode r = OpcodeQuery" and qs: "Questions r = [q]"
    and np: "\<not> HasPrefix (Name q) ''cname.''" and ty: "Qtype q = TypeA"
    and cfg: "A records = [a1, a2]"
    and v1: "ParseIP a1 \<noteq> None" and v2: "ParseIP a2 \<noteq> None"
    and b1: "NewRR (Name q @ '' A '' @ a1) = Inr (Some r1)"
    and b2: "NewRR (Name q @ '' A '' @ a2) = Inr (Some r2)"
    and fresh: "choiceMap w (Name q) = None"
  shows "\<exists>w1 w2 w3.
           newDNSHandler ParseIP NewRR records aDelay aaaaDelay authority True w r = Inr w1 \<and>
           newDNSHandler ParseIP NewRR records aDelay aaaaDelay authority True w1 r = Inr w2 \<and>
           newDNSHandler ParseIP NewRR records aDelay aaaaDelay authority True w2 r = Inr w3 \<and>
           map Answer (sent w1) = map Answer (sent w) @ [ [Some r2] ] \<and>
           map Answer (sent w2) = map Answer (sent w) @ [ [Some r2], [Some r1] ] \<and>
           map Answer (sent w3) = map Answer (sent w) @ [ [Some r2], [Some r1], [Some r2] ] \<and>
           choiceMap w1 (Name q) = Some 1 \<and>
           choiceMap w2 (Name q) = Some 2 \<and>
           choiceMap w3 (Name q) = Some 3"
proof -
  have qa: "question_answers records q = [a1, a2]"
    using np ty cfg by (simp add: direct_A_answers)
  have qr: "question_records ParseIP NewRR records q = [Some r1, Some r2]"
    using np ty v1 v2 b1 b2 by (simp add: direct_records question_type_A qa)
  have ne: "question_answers records q \<noteq> []" by (simp add: qa)
  have len: "2 \<le> length (question_records ParseIP NewRR records q)" by (simp add: qr)
  have qs': "Questions r = q # []" by (simp add: qs)
  note step = alternating_reply [OF op qs' ne len, where ad = aDelay and aad = aaaaDelay
      and auth = authority]
  have c0: "map_read (choiceMap w) (Name q) = 0" using fresh by (rule map_read_fresh)
  from step [OF c0] obtain w1 m1 where
    run1: "newDNSHandler ParseIP NewRR records aDelay aaaaDelay authority True w r = Inr w1"
    and snt1: "sent w1 = sent w @ [m1]"
    and ans1: "Answer m1 = [question_records ParseIP NewRR records q ! nat ((0 + 1) mod 2)]"
    and cm1: "choiceMap w1 = (choiceMap w)(Name q \<mapsto> 0 + 1)"
    by (auto simp: qr)
  have c1: "map_read (choiceMap w1) (Name q) = 1" by (simp add: cm1 map_read_upd)
  from step [OF c1] obtain w2 m2 where
    run2: "newDNSHandler ParseIP NewRR records aDelay aaaaDelay authority True w1 r = Inr w2"
    and snt2: "sent w2 = sent w1 @ [m2]"
    and ans2: "Answer m2 = [question_records ParseIP NewRR records q ! nat ((1 + 1) mod 2)]"
    and cm2: "choiceMap w2 = (choiceMap w1)(Name q \<mapsto> 1 + 1)"
    by (auto simp: qr)
  have c2: "map_read (choiceMap w2) (Name q) = 2" by (simp add: cm2 map_read_upd)
  from step [OF c2] obtain w3 m3 where
    run3: "newDNSHandler ParseIP NewRR records aDelay aaaaDelay authority True w2 r = Inr w3"
    and snt3: "sent w3 = sent w2 @ [m3]"
    and ans3: "Answer m3 = [question_records ParseIP NewRR records q ! nat ((2 + 1) mod 2)]"
    and cm3: "choiceMap w3 = (choiceMap w2)(Name q \<mapsto> 2 + 1)"
    by (auto simp: qr)
  have "Answer m1 = [Some r2]" and "Answer m2 = [Some r1]" and "Answer m3 = [Some r2]"
    by (simp_all add: ans1 ans2 ans3 qr)
  then have "map Answer (sent w1) = map Answer (sent w) @ [ [Some r2] ]"
    and "map Answer (sent w2) = map Answer (sent w) @ [ [Some r2], [Some r1] ]"
    and "map Answer (sent w3) = map Answer (sent w) @ [ [Some r2], [Some r1], [Some r2] ]"
    by (simp_all add: snt1 snt2 snt3)
  moreover have "choiceMap w1 (Name q) = Some 1" and "choiceMap w2 (Name q) = Some 2"
    and "choiceMap w3 (Name q) = Some 3"
    by (simp_all add: cm1 cm2 cm3)
  ultimately show ?thesis using run1 run2 run3 by blast
qed

theorem alternation_of_two_addresses_witness:
  "Opcode (example_query ''example.com.'' TypeA) = OpcodeQuery \<and>
   \<not> HasPrefix ''example.com.'' ''cname.'' \<and>
   A example_records = [''1.1.1.1'', ''2.2.2.2''] \<and>
   example_ParseIP ''1.1.1.1'' \<noteq> None \<and> example_ParseIP ''2.2.2.2'' \<noteq> None \<and>
   choiceMap example_world ''example.com.'' = None \<and>
   (\<exists>w1 w2 w3.
      newDNSHandler example_ParseIP example_NewRR example_records 0 0 [] True example_world
        (example_query ''example.com.'' TypeA) = Inr w1 \<and>
      newDNSHandler example_ParseIP example_NewRR example_records 0 0 [] True w1
        (example_query ''example.com.'' TypeA) = Inr w2 \<and>
      newDNSHandler example_ParseIP example_NewRR example_records 0 0 [] True w2
        (example_query ''example.com.'' TypeA) = Inr w3 \<and>
      map Answer (sent w3) =
        [ [Some ''example.com. A 2.2.2.2''], [Some ''example.com. A 1.1.1.1''],
          [Some ''example.com. A 2.2.2.2''] ])"
proof -
  let ?q = "\<lparr> Name = ''example.com.'', Qtype = TypeA, Qclass = 1 \<rparr>"
  let ?r = "example_query ''example.com.'' TypeA"
  have h1: "Opcode ?r = OpcodeQuery" and h2: "Questions ?r = [?q]"
    by (simp_all add: example_query_simps)
  have h3: "\<not> HasPrefix (Name ?q) ''cname.''" using example_no_prefix by simp
  have h4: "Qtype ?q = TypeA" by simp
  have h5: "A example_records = [''1.1.1.1'', ''2.2.2.2'']" by (simp add: example_records_def)
  have h6: "example_ParseIP ''1.1.1.1'' \<noteq> None" and h7: "example_ParseIP ''2.2.2.2'' \<noteq> None"
    by (simp_all add: example_ParseIP_simps)
  have h8: "example_NewRR (Name ?q @ '' A '' @ ''1.1.1.1'') =
      Inr (Some ''example.com. A 1.1.1.1'')"
    and h9: "example_NewRR (Name ?q @ '' A '' @ ''2.2.2.2'') =
      Inr (Some ''example.com. A 2.2.2.2'')"
    by (simp_all add: example_NewRR_simps)
  have h10: "choiceMap example_world (Name ?q) = None" by (simp add: example_world_simps)
  from alternation_of_two_addresses [where NewRR = example_NewRR and ParseIP = example_ParseIP
      and aDelay = 0 and aaaaDelay = 0 and authority = "[]", OF h1 h2 h3 h4 h5 h6 h7 h8 h9 h10]
  obtain w1 w2 w3 where
    "newDNSHandler example_ParseIP example_NewRR example_records 0 0 [] True example_world ?r =
       Inr w1"
    and "newDNSHandler example_ParseIP example_NewRR example_records 0 0 [] True w1 ?r = Inr w2"
    and "newDNSHandler example_ParseIP example_NewRR example_records 0 0 [] True w2 ?r = Inr w3"
    and "map Answer (sent w3) =
      map Answer (sent example_world) @
      [ [Some ''example.com. A 2.2.2.2''], [Some ''example.com. A 1.1.1.1''],
          [Some ''example.com. A 2.2.2.2''] ]"
    by blast
  then have "\<exists>w1 w2 w3.
      newDNSHandler example_ParseIP example_NewRR example_records 0 0 [] True example_world ?r =
        Inr w1 \<and>
      newDNSHandler example_ParseIP example_NewRR example_records 0 0 [] True w1 ?r = Inr w2 \<and>
      newDNSHandler example_ParseIP example_NewRR example_records 0 0 [] True w2 ?r = Inr w3 \<and>
      map Answer (sent w3) =
        [ [Some ''example.com. A 2.2.2.2''], [Some ''example.com. A 1.1.1.1''],
          [Some ''example.com. A 2.2.2.2''] ]"
    by (intro exI [of _ w1] exI [of _ w2] exI [of _ w3]) (simp add: example_world_simps)
  then show ?thesis
    using h1 h5 h6 h7 h10 example_no_prefix by simp
qed

text \<open>
  Claim C1, as stated, asks for the first address in the first reply.  The first reply
  to a query for a fresh name holds the second address.
\<close>

theorem first_alternating_reply_is_second_address:
  "answers_sent (newDNSHandler example_ParseIP example_NewRR example_records 0 0 [] True
       example_world (example_query ''example.com.'' TypeA)) =
     [ [Some ''example.com. A 2.2.2.2''] ]"
proof -
  let ?q = "\<lparr> Name = ''example.com.'', Qtype = TypeA, Qclass = 1 \<rparr>"
  let ?r = "example_query ''example.com.'' TypeA"
  have h1: "Opcode ?r = OpcodeQuery" and h2: "Questions ?r = ?q # []"
    by (simp_all add: example_query_simps)
  have ne: "question_answers example_records ?q \<noteq> []"
    by (simp add: example_direct_question)
  have len: "2 \<le> length (question_records example_ParseIP example_NewRR example_records ?q)"
    by (simp add: example_direct_question)
  have c0: "map_read (choiceMap example_world) (Name ?q) = 0"
    by (simp add: example_world_simps map_read_def)
  have nn: "question_records example_ParseIP example_NewRR example_records ?q !
      nat ((0 + 1) mod 2) \<noteq> None"
    by (simp add: example_direct_question)
  from alternating_reply [OF h1 h2 ne len c0 _ _ nn, where ad = 0 and aad = 0 and auth = "[]"]
  obtain w' m where
    "newDNSHandler example_ParseIP example_NewRR example_records 0 0 [] True example_world ?r =
       Inr w'"
    and "sent w' = sent example_world @ [m]"
    and "Answer m =
      [question_records example_ParseIP example_NewRR example_records ?q ! nat ((0 + 1) mod 2)]"
    by auto
  then show ?thesis
    by (simp add: answers_sent_def example_world_simps example_direct_question)
qed

text \<open>
  Claim C2.  With alternation enabled and an A set whose only entry is not an address,
  no record is built; the alternation step still indexes the answer section, at index 1
  of a list of length 0, and the handler ends in a panic instead of leaving the answers
  unchanged.
\<close>

theorem alternation_without_records_panics:
  "newDNSHandler example_ParseIP example_NewRR example_invalid_records 0 0 [] True
     example_world (example_query ''example.com.'' TypeA) = Inl (IndexOutOfRange 1 0)"
proof -
  let ?q = "\<lparr> Name = ''example.com.'', Qtype = TypeA, Qclass = 1 \<rparr>"
  let ?r = "example_query ''example.com.'' TypeA"
  have h1: "Opcode ?r = OpcodeQuery" and h2: "Questions ?r = ?q # []"
    by (simp_all add: example_query_simps)
  have ne: "question_answers example_invalid_records ?q \<noteq> []"
    by (simp add: example_invalid_question)
  show ?thesis
    by (simp add: handler_alternating [OF h1 h2 TrueI ne] example_invalid_question
        example_world_simps fresh_counter_index index_slice_Nil)
qed

text \<open>
  Claim C3.  The handler does not always write a reply.  With alternation enabled and a
  single valid A address, the first query for a name builds one record and indexes it at
  1: the call ends in a panic and nothing is written.
\<close>

theorem alternation_with_one_record_panics:
  "newDNSHandler example_ParseIP example_NewRR example_single_record 0 0 [] True
     example_world (example_query ''example.com.'' TypeA) = Inl (IndexOutOfRange 1 1)"
proof -
  let ?q = "\<lparr> Name = ''example.com.'', Qtype = TypeA, Qclass = 1 \<rparr>"
  let ?r = "example_query ''example.com.'' TypeA"
  have h1: "Opcode ?r = OpcodeQuery" and h2: "Questions ?r = ?q # []"
    by (simp_all add: example_query_simps)
  have ne: "question_answers example_single_record ?q \<noteq> []"
    by (simp add: example_single_question)
  show ?thesis
    by (simp add: handler_alternating [OF h1 h2 TrueI ne] example_single_question
        example_world_simps fresh_counter_index index_slice_def)
qed

subsection \<open>The CNAME record of a prefixed name\<close>

text \<open>
  Claim C4, as the code has it.  A message with the standard query opcode and one
  question whose name starts with \<^verbatim>\<open>cname.\<close>, of any type, for which the CNAME record
  from the full name to the name without the prefix can be built, and for which \<open>NewRR\<close>
  returns no \<^verbatim>\<open>nil\<close> for an accepted address of the selected set.  When alternation is
  disabled, or the question selects no answer set, one reply is written and its answer
  section starts with that CNAME record.
\<close>

theorem cname_record_leads:
  assumes op: "Opcode r = OpcodeQuery" and qs: "Questions r = [q]"
    and pre: "HasPrefix (Name q) ''cname.''"
    and built: "NewRR (Name q @ '' CNAME '' @ TrimPrefix (Name q) ''cname.'') = Inr (Some c)"
    and alt: "\<not> alternateRecords \<or>
              fst (select_answers records aDelay aaaaDelay True (Qtype q)) = []"
    and nonnil: "\<forall>ip \<in> set (fst (select_answers records aDelay aaaaDelay True (Qtype q))).
                   ParseIP ip \<noteq> None \<longrightarrow>
                   NewRR (TrimPrefix (Name q) ''cname.'' @ '' '' @
                          fst (snd (select_answers records aDelay aaaaDelay True (Qtype q))) @
                          '' '' @ ip) \<noteq> Inr None"
  shows "\<exists>w' m rest.
           newDNSHandler ParseIP NewRR records aDelay aaaaDelay authority alternateRecords w r =
             Inr w' \<and>
           sent w' = sent w @ [m] \<and> Answer m = Some c # rest"
proof -
  let ?m = "(SetReply new_Msg r)\<lparr> Authoritative := True, Compress := False,
               Answer := question_records ParseIP NewRR records q,
               Ns := authority_records NewRR authority q \<rparr>"
  have sel: "select_answers records aDelay aaaaDelay True (Qtype q) =
      (question_answers records q, question_type q, question_delay aDelay aaaaDelay q)"
    using select_answers_eq [of records aDelay aaaaDelay q] pre by simp
  then have plain: "\<not> (alternateRecords \<and> question_answers records q \<noteq> [])"
    using alt by auto
  have qs': "Questions r = q # []" by (simp add: qs)
  have cn: "cname_records NewRR q = [Some c]"
    using pre built by (simp add: cname_records_def)
  have "None \<notin> set (built_records ParseIP NewRR (TrimPrefix (Name q) ''cname.'')
      (question_type q) (question_answers records q))"
    using nonnil by (intro built_records_no_nil) (simp add: sel)
  then have nn: "None \<notin> set (question_records ParseIP NewRR records q)"
    by (simp add: question_records_def cn)
  have run: "\<exists>w'. newDNSHandler ParseIP NewRR records aDelay aaaaDelay authority alternateRecords w r =
      Inr w' \<and> sent w' = sent w @ [?m]"
    using nn by (simp add: handler_plain [OF op qs' plain])
  have "Answer ?m =
      Some c # built_records ParseIP NewRR (TrimPrefix (Name q) ''cname.'') (question_type q)
                 (question_answers records q)"
    by (simp add: question_records_def cn)
  with run show ?thesis by blast
qed

theorem cname_record_leads_witness:
  "Opcode (example_query ''cname.example.com.'' TypeA) = OpcodeQuery \<and>
   HasPrefix ''cname.example.com.'' ''cname.'' \<and>
   answers_sent (newDNSHandler example_ParseIP example_NewRR example_single_record 0 0 [] False
       example_world (example_query ''cname.example.com.'' TypeA)) =
     [ [Some ''cname.example.com. CNAME example.com.'', Some ''example.com. A 1.1.1.1''] ]"
proof -
  let ?q = "\<lparr> Name = ''cname.example.com.'', Qtype = TypeA, Qclass = 1 \<rparr>"
  let ?r = "example_query ''cname.example.com.'' TypeA"
  have h1: "Opcode ?r = OpcodeQuery" and h2: "Questions ?r = [?q]"
    by (simp_all add: example_query_simps)
  have h3: "HasPrefix (Name ?q) ''cname.''" using example_prefix by simp
  have h4: "example_NewRR (Name ?q @ '' CNAME '' @ TrimPrefix (Name ?q) ''cname.'') =
      Inr (Some ''cname.example.com. CNAME example.com.'')"
    by (simp add: example_NewRR_simps example_trim)
  have h5: "\<not> False \<or> fst (select_answers example_single_record 0 0 True (Qtype ?q)) = []"
    by simp
  have h6: "\<forall>ip \<in> set (fst (select_answers example_single_record 0 0 True (Qtype ?q))).
      example_ParseIP ip \<noteq> None \<longrightarrow>
      example_NewRR (TrimPrefix (Name ?q) ''cname.'' @ '' '' @
                     fst (snd (select_answers example_single_record 0 0 True (Qtype ?q))) @
                     '' '' @ ip) \<noteq> Inr None"
    by (simp add: select_answers_def example_single_record_def example_trim
        example_NewRR_simps)
  from cname_record_leads [where NewRR = example_NewRR and ParseIP = example_ParseIP
      and alternateRecords = False and records = example_single_record and aDelay = 0
      and aaaaDelay = 0 and authority = "[]" and w = example_world, OF h1 h2 h3 h4 h5 h6]
  obtain w' m rest where
    run: "newDNSHandler example_ParseIP example_NewRR example_single_record 0 0 [] False
            example_world ?r = Inr w'"
    and snt: "sent w' = sent example_world @ [m]"
    and hd: "Answer m = Some ''cname.example.com. CNAME example.com.'' # rest"
    by blast
  have h2': "Questions ?r = ?q # []" by (simp add: h2)
  have plain: "\<not> (False \<and> question_answers example_single_record ?q \<noteq> [])" by simp
  have "answers_sent (newDNSHandler example_ParseIP example_NewRR example_single_record 0 0 []
      False example_world ?r) =
      [ [Some ''cname.example.com. CNAME example.com.'', Some ''example.com. A 1.1.1.1''] ]"
    by (simp add: handler_plain [OF h1 h2' plain] answers_sent_def example_world_simps
        example_cname_question)
  then show ?thesis using h1 example_prefix hd by simp
qed

text \<open>
  Claim C4, as stated, holds with alternation enabled too.  With alternation enabled and
  one A address, the first reply to a prefixed name holds the A record alone: the CNAME
  record was at index 0 and index 1 was kept.
\<close>

theorem alternation_drops_cname_record:
  "answers_sent (newDNSHandler example_ParseIP example_NewRR example_single_record 0 0 [] True
       example_world (example_query ''cname.example.com.'' TypeA)) =
     [ [Some ''example.com. A 1.1.1.1''] ]"
proof -
  let ?q = "\<lparr> Name = ''cname.example.com.'', Qtype = TypeA, Qclass = 1 \<rparr>"
  let ?r = "example_query ''cname.example.com.'' TypeA"
  have h1: "Opcode ?r = OpcodeQuery" and h2: "Questions ?r = ?q # []"
    by (simp_all add: example_query_simps)
  have ne: "question_answers example_single_record ?q \<noteq> []"
    by (simp add: example_cname_question)
  show ?thesis
    by (simp add: handler_alternating [OF h1 h2 TrueI ne] example_cname_question
        example_world_simps fresh_counter_index index_slice_def answers_sent_def)
qed

subsection \<open>The authority section\<close>

text \<open>
  Claim C5, as the code has it.  A non-empty authority is configured and the handler
  writes a reply.  For a message with the standard query opcode the message has a first
  question, and the authority section of the reply is the one NS record naming the
  authority for the name of that question when the record can be built, and empty when
  it cannot; the log of the call is the same in both cases, so the failure is skipped
  without a log line.  For a message with any other opcode the authority section of the
  reply is empty.
\<close>

theorem authority_section_of_replies:
  assumes auth: "authority \<noteq> []"
    and run: "newDNSHandler ParseIP NewRR records aDelay aaaaDelay authority alternateRecords w r =
                Inr w'"
  shows "\<exists>m. sent w' = sent w @ [m] \<and>
           (if Opcode r = OpcodeQuery then
              (\<exists>q qs. Questions r = q # qs \<and>
                 Ns m = (case NewRR (Name q @ '' NS '' @ authority) of
                           Inr rr \<Rightarrow> [rr] | Inl e \<Rightarrow> []) \<and>
                 logged w' = logged w @ question_log ParseIP NewRR records aDelay aaaaDelay q @
                               map Responding (Answer m))
            else Ns m = [])"
proof (cases "Opcode r = OpcodeQuery")
  case False
  let ?m = "(SetReply new_Msg r)\<lparr> Compress := False \<rparr>"
  have "w' = w\<lparr> logged := logged w @ [GotNonQuery r], sent := sent w @ [?m] \<rparr>"
    using run False by (simp add: handler_nonquery)
  then have "sent w' = sent w @ [?m]" by simp
  moreover have "Ns ?m = []" by (simp add: SetReply_Ns)
  ultimately show ?thesis using False by auto
next
  case True
  show ?thesis
  proof (cases "Questions r")
    case Nil
    then show ?thesis using run True auth by (simp add: handler_no_question)
  next
    case (Cons q qs)
    let ?ns = "case NewRR (Name q @ '' NS '' @ authority) of Inr rr \<Rightarrow> [rr] | Inl e \<Rightarrow> []"
    have ns: "authority_records NewRR authority q = ?ns"
      using auth by (simp add: authority_records_def)
    show ?thesis
    proof (cases "alternateRecords \<and> question_answers records q \<noteq> []")
      case False
      let ?m = "(SetReply new_Msg r)\<lparr> Authoritative := True, Compress := False,
                   Answer := question_records ParseIP NewRR records q,
                   Ns := authority_records NewRR authority q \<rparr>"
      have "w' = w\<lparr> sent := sent w @ [?m],
                     slept := slept w @ [question_delay aDelay aaaaDelay q],
                     logged := logged w @ question_log ParseIP NewRR records aDelay aaaaDelay q @
                                 map Responding (question_records ParseIP NewRR records q) \<rparr>"
        using run handler_plain [OF True Cons False, of ParseIP NewRR aDelay aaaaDelay authority w]
        by (simp split: if_splits)
      then have "sent w' = sent w @ [?m]"
        and "logged w' = logged w @ question_log ParseIP NewRR records aDelay aaaaDelay q @
               map Responding (Answer ?m)"
        by simp_all
      moreover have "Ns ?m = ?ns" by (simp add: ns)
      ultimately show ?thesis using True Cons by auto
    next
      case alt: True
      then have a: "alternateRecords" and ne: "question_answers records q \<noteq> []" by simp_all
      note eq = handler_alternating [OF True Cons a ne, of ParseIP NewRR aDelay aaaaDelay
          authority w]
      from run eq obtain rr where
        w': "w' = w\<lparr> choiceMap := (choiceMap w)(Name q \<mapsto>
                        wrap_int64 (map_read (choiceMap w) (Name q) + 1)),
                     sent := sent w @
                       [(SetReply new_Msg r)\<lparr> Authoritative := True, Compress := False,
                           Answer := [rr], Ns := authority_records NewRR authority q \<rparr>],
                     slept := slept w @ [question_delay aDelay aaaaDelay q],
                     logged := logged w @ question_log ParseIP NewRR records aDelay aaaaDelay q @
                                 [Responding rr] \<rparr>"
        by (auto split: sum.splits if_splits)
      let ?m = "(SetReply new_Msg r)\<lparr> Authoritative := True, Compress := False,
                   Answer := [rr], Ns := authority_records NewRR authority q \<rparr>"
      have "sent w' = sent w @ [?m]"
        and "logged w' = logged w @ question_log ParseIP NewRR records aDelay aaaaDelay q @
               map Responding (Answer ?m)"
        by (simp_all add: w')
      moreover have "Ns ?m = ?ns" by (simp add: ns)
      ultimately show ?thesis using True Cons by auto
    qed
  qed
qed

theorem authority_section_of_replies_witness:
  "''ns.example.com.'' \<noteq> [] \<and>
   authority_sent (newDNSHandler example_ParseIP example_NewRR example_records 0 0
       ''ns.example.com.'' False example_world (example_query ''example.com.'' TypeA)) =
     [ [Some ''example.com. NS ns.example.com.''] ]"
proof -
  let ?q = "\<lparr> Name = ''example.com.'', Qtype = TypeA, Qclass = 1 \<rparr>"
  let ?r = "example_query ''example.com.'' TypeA"
  have h1: "Opcode ?r = OpcodeQuery" and h2: "Questions ?r = ?q # []"
    by (simp_all add: example_query_simps)
  have plain: "\<not> (False \<and> question_answers example_records ?q \<noteq> [])" by simp
  have auth: "''ns.example.com.'' \<noteq> []" by simp
  obtain w' where
    run: "newDNSHandler example_ParseIP example_NewRR example_records 0 0 ''ns.example.com.''
            False example_world ?r = Inr w'"
    by (simp add: handler_plain [OF h1 h2 plain] example_direct_question)
  from authority_section_of_replies [OF auth run] obtain m where
    snt: "sent w' = sent example_world @ [m]"
    and ns: "\<exists>q qs. Questions ?r = q # qs \<and>
               Ns m = (case example_NewRR (Name q @ '' NS '' @ ''ns.example.com.'') of
                         Inr rr \<Rightarrow> [rr] | Inl e \<Rightarrow> [])"
    using h1 by auto
  from ns have "Ns m = [Some ''example.com. NS ns.example.com.'']"
    by (auto simp: h2 example_NewRR_simps)
  then show ?thesis
    using run snt by (simp add: authority_sent_def example_world_simps)
qed

text \<open>
  Claim C5, as stated, covers every opcode.  The reply to an UPDATE message carries no
  NS record although an authority is configured.
\<close>

theorem non_query_reply_has_no_authority:
  "authority_sent (newDNSHandler example_ParseIP example_NewRR example_records 0 0
       ''ns.example.com.'' False example_world example_update) = [ [] ]"
proof -
  have h: "Opcode example_update \<noteq> OpcodeQuery"
    by (simp add: example_update_def new_Msg_def OpcodeQuery_def)
  show ?thesis
    by (simp add: handler_nonquery [OF h] authority_sent_def example_world_simps SetReply_Ns)
qed

end
